theory Spec2Isabelle
  imports Main "HOL-Library.Char_ord" "HOL-Library.List_Lexorder"
begin

section \<open>Python values\<close>

text \<open>
  The values that \<^verbatim>\<open>response.json()\<close> can produce: \<^verbatim>\<open>None\<close>, booleans,
  integers, floats, strings, lists and dictionaries, and the tuple that
  \<^verbatim>\<open>get_fixed_team\<close> builds. A dictionary is an association list read with
  \<open>map_of\<close>.

  A float is a double: \<open>Finite m e\<close> is the number \<open>m * 2 ^ e\<close>, which is a double when
  \<open>\<bar>m\<bar> < 2 ^ 53\<close>, \<open>- 1074 \<le> e\<close> and \<open>\<bar>m\<bar> * 2 ^ e < 2 ^ 1024\<close>; \<open>Infinity True\<close> is
  \<^verbatim>\<open>inf\<close>, \<open>Infinity False\<close> is \<^verbatim>\<open>-inf\<close>. The sign of a zero is not kept: no
  operation of the modelled code reads it.
\<close>

datatype pyfloat = Finite int int | Infinity bool | NaN

datatype pyval =
    PNone
  | PBool bool
  | PInt int
  | PFloat pyfloat
  | PStr string
  | PList "pyval list"
  | PDict "(string \<times> pyval) list"
  | PTuple "pyval list"

text \<open>Truth value testing, as in \<^verbatim>\<open>if stale_data:\<close>.\<close>

fun truthy :: "pyval \<Rightarrow> bool" where
  "truthy PNone = False"
| "truthy (PBool b) = b"
| "truthy (PInt n) = (n \<noteq> 0)"
| "truthy (PFloat (Finite m e)) = (m \<noteq> 0)"
| "truthy (PFloat x) = True"
| "truthy (PStr s) = (s \<noteq> [])"
| "truthy (PList xs) = (xs \<noteq> [])"
| "truthy (PDict kvs) = (kvs \<noteq> [])"
| "truthy (PTuple xs) = (xs \<noteq> [])"

text \<open>The exceptions that the modelled code can raise.\<close>

datatype pyerror =
  RequestException | JSONDecodeError | AttributeError | KeyError | TypeError | OverflowError

text \<open>\<^verbatim>\<open>x[key]\<close> with a string key: only a dictionary can be subscripted by a string.\<close>

fun py_index :: "pyval \<Rightarrow> string \<Rightarrow> pyerror + pyval" where
  "py_index (PDict kvs) k = (case map_of kvs k of None \<Rightarrow> Inl KeyError | Some v \<Rightarrow> Inr v)"
| "py_index _ k = Inl TypeError"

text \<open>\<^verbatim>\<open>x.get(key, default)\<close>: only a dictionary has the method.\<close>

fun py_get :: "pyval \<Rightarrow> string \<Rightarrow> pyval \<Rightarrow> pyerror + pyval" where
  "py_get (PDict kvs) k d = Inr (case map_of kvs k of None \<Rightarrow> d | Some v \<Rightarrow> v)"
| "py_get _ k d = Inl AttributeError"

text \<open>\<^verbatim>\<open>str(n)\<close> of an integer, as the f-strings of the cache keys format it.\<close>

fun digits :: "nat \<Rightarrow> string" where
  "digits n =
     (if n < 10 then [''0123456789'' ! n]
      else digits (n div 10) @ [''0123456789'' ! (n mod 10)])"

declare digits.simps [simp del]

definition str_int :: "int \<Rightarrow> string" where
  "str_int i = (if i < 0 then ''-'' @ digits (nat (- i)) else digits (nat i))"

section \<open>Python numbers\<close>

text \<open>
  Booleans and integers are whole numbers (\<^verbatim>\<open>bool\<close> is a subclass of \<^verbatim>\<open>int\<close>),
  floats are doubles. Python compares a whole number with a float by their exact
  values, so a comparison reads both as \<open>m * 2 ^ e\<close> and loses nothing.
\<close>

datatype number = Whole int | Floating pyfloat

fun as_number :: "pyval \<Rightarrow> number option" where
  "as_number (PBool b) = Some (Whole (if b then 1 else 0))"
| "as_number (PInt n) = Some (Whole n)"
| "as_number (PFloat x) = Some (Floating x)"
| "as_number v = None"

fun exact :: "number \<Rightarrow> pyfloat" where
  "exact (Whole n) = Finite n 0"
| "exact (Floating x) = x"

fun float_lt :: "pyfloat \<Rightarrow> pyfloat \<Rightarrow> bool" where
  "float_lt (Finite m e) (Finite m' e') =
     (m * 2 ^ nat (e - min e e') < m' * 2 ^ nat (e' - min e e'))"
| "float_lt (Finite m e) (Infinity positive) = positive"
| "float_lt (Infinity positive) (Finite m e) = (\<not> positive)"
| "float_lt (Infinity positive) (Infinity positive') = (\<not> positive \<and> positive')"
| "float_lt NaN y = False"
| "float_lt x NaN = False"

fun float_eq :: "pyfloat \<Rightarrow> pyfloat \<Rightarrow> bool" where
  "float_eq (Finite m e) (Finite m' e') =
     (m * 2 ^ nat (e - min e e') = m' * 2 ^ nat (e' - min e e'))"
| "float_eq (Infinity positive) (Infinity positive') = (positive = positive')"
| "float_eq x y = False"

text \<open>
  The number of binary digits of a positive integer, and the double nearest to
  \<open>m * 2 ^ e\<close>: 53 digits are kept, a tie goes to the even mantissa, and a result of
  \<open>2 ^ 1024\<close> or more is infinite. (A difference of two doubles is a multiple of
  \<open>2 ^ - 1074\<close>, so no rounding happens below the normal range.)
\<close>

function bit_length :: "int \<Rightarrow> nat" where
  "bit_length n = (if n \<le> 0 then 0 else Suc (bit_length (n div 2)))"
  by pat_completeness auto
termination
  by (relation "measure nat") auto

declare bit_length.simps [simp del]

definition round_to_double :: "int \<Rightarrow> int \<Rightarrow> pyfloat" where
  "round_to_double m e =
     (let size = bit_length \<bar>m\<bar>;
          drop = size - 53;
          kept = \<bar>m\<bar> div 2 ^ drop;
          rest = \<bar>m\<bar> mod 2 ^ drop;
          up = (2 * rest > 2 ^ drop \<or> (2 * rest = 2 ^ drop \<and> odd kept));
          mantissa = (if size \<le> 53 then \<bar>m\<bar> else if up then kept + 1 else kept);
          exponent = (if size \<le> 53 then e else e + int drop)
      in if int (bit_length mantissa) + exponent > 1024 then Infinity (0 < m)
         else Finite (sgn m * mantissa) exponent)"

text \<open>
  The conversion of an integer in mixed arithmetic: Python raises
  \<^verbatim>\<open>OverflowError\<close> (int too large to convert to float) where the nearest double
  would be infinite.
\<close>

definition float_of_int :: "int \<Rightarrow> pyerror + pyfloat" where
  "float_of_int n =
     (case round_to_double n 0 of
        Infinity positive \<Rightarrow> Inl OverflowError
      | x \<Rightarrow> Inr x)"

fun to_float :: "number \<Rightarrow> pyerror + pyfloat" where
  "to_float (Whole n) = float_of_int n"
| "to_float (Floating x) = Inr x"

fun float_sub :: "pyfloat \<Rightarrow> pyfloat \<Rightarrow> pyfloat" where
  "float_sub (Finite m e) (Finite m' e') =
     round_to_double (m * 2 ^ nat (e - min e e') - m' * 2 ^ nat (e' - min e e')) (min e e')"
| "float_sub (Finite m e) (Infinity positive) = Infinity (\<not> positive)"
| "float_sub (Infinity positive) (Finite m e) = Infinity positive"
| "float_sub (Infinity positive) (Infinity positive') =
     (if positive = positive' then NaN else Infinity positive)"
| "float_sub NaN y = NaN"
| "float_sub x NaN = NaN"

text \<open>
  \<^verbatim>\<open>x - y\<close>: two whole numbers give an integer, a float on either side makes both
  floats, anything else is a \<^verbatim>\<open>TypeError\<close>.
\<close>

fun py_sub :: "pyval \<Rightarrow> pyval \<Rightarrow> pyerror + pyval" where
  "py_sub x y =
     (case (as_number x, as_number y) of
        (Some (Whole m), Some (Whole n)) \<Rightarrow> Inr (PInt (m - n))
      | (Some m, Some n) \<Rightarrow>
          (case to_float m of
             Inl err \<Rightarrow> Inl err
           | Inr a \<Rightarrow>
               (case to_float n of
                  Inl err \<Rightarrow> Inl err
                | Inr b \<Rightarrow> Inr (PFloat (float_sub a b))))
      | _ \<Rightarrow> Inl TypeError)"

text \<open>
  \<^verbatim>\<open>x == y\<close>, which never raises on these values: numbers by value, strings,
  lists and tuples item by item, dictionaries key by key, and \<^verbatim>\<open>False\<close> between
  values of different kinds.
\<close>

fun py_eq :: "pyval \<Rightarrow> pyval \<Rightarrow> bool"
  and py_eq_list :: "pyval list \<Rightarrow> pyval list \<Rightarrow> bool"
  and py_eq_items :: "(string \<times> pyval) list \<Rightarrow> (string \<times> pyval) list \<Rightarrow> bool"
  and py_eq_item :: "string \<Rightarrow> pyval \<Rightarrow> (string \<times> pyval) list \<Rightarrow> bool" where
  "py_eq PNone PNone = True"
| "py_eq (PStr s) (PStr t) = (s = t)"
| "py_eq (PList xs) (PList ys) = py_eq_list xs ys"
| "py_eq (PTuple xs) (PTuple ys) = py_eq_list xs ys"
| "py_eq (PDict a) (PDict b) = (length a = length b \<and> py_eq_items a b)"
| "py_eq x y =
     (case (as_number x, as_number y) of
        (Some m, Some n) \<Rightarrow> float_eq (exact m) (exact n)
      | _ \<Rightarrow> False)"
| "py_eq_list [] [] = True"
| "py_eq_list (x # xs) (y # ys) = (py_eq x y \<and> py_eq_list xs ys)"
| "py_eq_list xs ys = False"
| "py_eq_items [] b = True"
| "py_eq_items ((k, v) # a) b = (py_eq_item k v b \<and> py_eq_items a b)"
| "py_eq_item k v [] = False"
| "py_eq_item k v ((k', w) # b) = (if k = k' then py_eq v w else py_eq_item k v b)"

text \<open>
  \<^verbatim>\<open>x < y\<close>: numbers by value, strings by code points, lists and tuples by the first
  pair of items that are not equal, else by length; every other pair of values raises
  \<^verbatim>\<open>TypeError\<close>. \<^verbatim>\<open>x > y\<close> is \<^verbatim>\<open>y < x\<close> on these values.
\<close>

fun py_lt :: "pyval \<Rightarrow> pyval \<Rightarrow> pyerror + bool"
  and py_lt_list :: "pyval list \<Rightarrow> pyval list \<Rightarrow> pyerror + bool" where
  "py_lt (PStr s) (PStr t) = Inr (s < t)"
| "py_lt (PList xs) (PList ys) = py_lt_list xs ys"
| "py_lt (PTuple xs) (PTuple ys) = py_lt_list xs ys"
| "py_lt x y =
     (case (as_number x, as_number y) of
        (Some m, Some n) \<Rightarrow> Inr (float_lt (exact m) (exact n))
      | _ \<Rightarrow> Inl TypeError)"
| "py_lt_list [] [] = Inr False"
| "py_lt_list [] (y # ys) = Inr True"
| "py_lt_list (x # xs) [] = Inr False"
| "py_lt_list (x # xs) (y # ys) = (if py_eq x y then py_lt_list xs ys else py_lt x y)"

definition py_gt :: "pyval \<Rightarrow> pyval \<Rightarrow> pyerror + bool" where
  "py_gt x y = py_lt y x"

text \<open>
  \<^verbatim>\<open>for item in x\<close>: the items of a list or tuple, the keys of a dictionary, the
  characters of a string; other values are not iterable.
\<close>

fun py_iter :: "pyval \<Rightarrow> pyerror + pyval list" where
  "py_iter (PList xs) = Inr xs"
| "py_iter (PTuple xs) = Inr xs"
| "py_iter (PDict kvs) = Inr (map (\<lambda>(k, v). PStr k) kvs)"
| "py_iter (PStr s) = Inr (map (\<lambda>c. PStr [c]) s)"
| "py_iter v = Inl TypeError"

text \<open>One statement after another: the first exception ends the run.\<close>

fun and_then :: "pyerror + 'a \<Rightarrow> ('a \<Rightarrow> pyerror + 'b) \<Rightarrow> pyerror + 'b" where
  "and_then (Inl err) f = Inl err"
| "and_then (Inr v) f = f v"

section \<open>The cache store of main.py\<close>

text \<open>
  Time is an integer number of microseconds, the resolution of \<^verbatim>\<open>datetime\<close>.
  Every reading of \<^verbatim>\<open>datetime.now()\<close> is an argument of the function that reads it.
\<close>

type_synonym time = int

type_synonym cache_store = "string \<rightharpoonup> (pyval \<times> time)"

definition CACHE_DURATION :: int where
  "CACHE_DURATION = 5 * 60 * 1000000"

definition get_cached :: "cache_store \<Rightarrow> string \<Rightarrow> bool \<Rightarrow> time \<Rightarrow> pyval \<times> bool" where
  "get_cached c key allow_stale now =
     (case c key of
        None \<Rightarrow> (PNone, False)
      | Some (data, timestamp) \<Rightarrow>
          (let is_fresh = (now - timestamp < CACHE_DURATION)
           in if is_fresh then (data, True)
              else if allow_stale then (data, False)
              else (PNone, False)))"

definition set_cache :: "cache_store \<Rightarrow> string \<Rightarrow> pyval \<Rightarrow> time \<Rightarrow> cache_store" where
  "set_cache c key data now = c(key \<mapsto> (data, now))"

section \<open>The upstream HTTP call\<close>

text \<open>
  A call of \<^verbatim>\<open>requests.get\<close> either raises or returns a response with a status
  code and a body; \<open>json\<close> is what \<^verbatim>\<open>response.json()\<close> returns, \<open>None\<close> when it
  raises. The outcome of the call is an argument of the function that makes it, and
  every request that is sent is appended to the log \<open>sent\<close> of the process state.
\<close>

record request =
  url :: string
  params :: "(string \<times> int) list"

datatype 'a response = Response (status_code: int) (json: "'a option")

datatype 'a outcome = Raised | Returned "'a response"

record world =
  cache :: cache_store
  sent :: "request list"

definition BASE_URL :: string where
  "BASE_URL = ''https://api.balldontlie.io/v1''"

definition FIXED_TEAM_ID :: int where
  "FIXED_TEAM_ID = 14"

section \<open>The query functions of main.py\<close>

text \<open>
  The fallback that both functions run when the status is not 200 and again in their
  \<^verbatim>\<open>except Exception\<close> handler: \<^verbatim>\<open>no_data\<close> is \<^verbatim>\<open>None\<close> in
  \<^verbatim>\<open>get_fixed_team\<close> and \<^verbatim>\<open>[]\<close> in \<^verbatim>\<open>get_team_games\<close>.
\<close>

definition stale_fallback :: "cache_store \<Rightarrow> string \<Rightarrow> time \<Rightarrow> pyval \<Rightarrow> pyval" where
  "stale_fallback c cache_key now no_data =
     (let (stale_data, _) = get_cached c cache_key True now
      in if truthy stale_data then stale_data else no_data)"

text \<open>Lines 124 to 128 of \<^verbatim>\<open>get_fixed_team\<close>: the tuple read from the body.\<close>

definition team_result :: "pyval response \<Rightarrow> pyerror + pyval" where
  "team_result response =
     (case json response of
        None \<Rightarrow> Inl JSONDecodeError
      | Some body \<Rightarrow>
          (case py_index body ''data'' of
             Inl e \<Rightarrow> Inl e
           | Inr data \<Rightarrow>
               (case py_index data ''name'' of
                  Inl e \<Rightarrow> Inl e
                | Inr team_name \<Rightarrow>
                    (case py_index data ''city'' of
                       Inl e \<Rightarrow> Inl e
                     | Inr team_city \<Rightarrow>
                         (case py_index data ''abbreviation'' of
                            Inl e \<Rightarrow> Inl e
                          | Inr team_abbreviation \<Rightarrow>
                              Inr (PTuple [team_name, team_city, team_abbreviation]))))))"

definition team_key :: string where
  "team_key = ''team_'' @ str_int FIXED_TEAM_ID"

definition team_request :: request where
  "team_request = \<lparr>url = BASE_URL @ ''/teams/'' @ str_int FIXED_TEAM_ID, params = []\<rparr>"

text \<open>
  \<open>t1\<close> is the clock at the first cache read, \<open>t2\<close> the clock at the access after
  the request (\<^verbatim>\<open>set_cache\<close> or the fallback read).
\<close>

definition get_fixed_team :: "world \<Rightarrow> time \<Rightarrow> pyval outcome \<Rightarrow> time \<Rightarrow> pyval \<times> world" where
  "get_fixed_team w t1 upstream t2 =
     (let cache_key = team_key;
          (cached, is_fresh) = get_cached (cache w) cache_key False t1
      in if cached \<noteq> PNone \<and> is_fresh then (cached, w)
         else
           (let w' = w\<lparr>sent := sent w @ [team_request]\<rparr>
            in case upstream of
                 Raised \<Rightarrow> (stale_fallback (cache w') cache_key t2 PNone, w')
               | Returned response \<Rightarrow>
                   if status_code response \<noteq> 200
                   then (stale_fallback (cache w') cache_key t2 PNone, w')
                   else
                     (case team_result response of
                        Inl e \<Rightarrow> (stale_fallback (cache w') cache_key t2 PNone, w')
                      | Inr result \<Rightarrow>
                          (result, w'\<lparr>cache := set_cache (cache w') cache_key result t2\<rparr>))))"

text \<open>Line 185 of \<^verbatim>\<open>get_team_games\<close>: \<^verbatim>\<open>response.json().get("data", [])\<close>.\<close>

definition games_result :: "pyval response \<Rightarrow> pyerror + pyval" where
  "games_result response =
     (case json response of
        None \<Rightarrow> Inl JSONDecodeError
      | Some body \<Rightarrow> py_get body ''data'' (PList []))"

definition games_key :: "int \<Rightarrow> int \<Rightarrow> int \<Rightarrow> string" where
  "games_key team_id season per_page =
     ''games_'' @ str_int team_id @ ''_'' @ str_int season @ ''_'' @ str_int per_page"

definition games_request :: "int \<Rightarrow> int \<Rightarrow> int \<Rightarrow> request" where
  "games_request team_id season per_page =
     \<lparr>url = BASE_URL @ ''/games'',
      params = [(''team_ids[]'', team_id), (''seasons[]'', season), (''per_page'', per_page)]\<rparr>"

definition get_team_games ::
  "world \<Rightarrow> int \<Rightarrow> int \<Rightarrow> int \<Rightarrow> time \<Rightarrow> pyval outcome \<Rightarrow> time \<Rightarrow> pyval \<times> world" where
  "get_team_games w team_id season per_page t1 upstream t2 =
     (let cache_key = games_key team_id season per_page;
          (cached, is_fresh) = get_cached (cache w) cache_key False t1
      in if cached \<noteq> PNone \<and> is_fresh then (cached, w)
         else
           (let w' = w\<lparr>sent := sent w @ [games_request team_id season per_page]\<rparr>
            in case upstream of
                 Raised \<Rightarrow> (stale_fallback (cache w') cache_key t2 (PList []), w')
               | Returned response \<Rightarrow>
                   if status_code response \<noteq> 200
                   then (stale_fallback (cache w') cache_key t2 (PList []), w')
                   else
                     (case games_result response of
                        Inl e \<Rightarrow> (stale_fallback (cache w') cache_key t2 (PList []), w')
                      | Inr data \<Rightarrow>
                          (data, w'\<lparr>cache := set_cache (cache w') cache_key data t2\<rparr>))))"

text \<open>
  The upstream call fails when \<^verbatim>\<open>requests.get\<close> raises
  (a network error, a timeout) or the status is not 200.
\<close>

fun upstream_fails :: "'a outcome \<Rightarrow> bool" where
  "upstream_fails Raised = True"
| "upstream_fails (Returned response) = (status_code response \<noteq> 200)"

section \<open>get_lakers_games of services/nba.py\<close>

text \<open>The processed game, the dictionary built at lines 104 to 113.\<close>

record game_record =
  date :: pyval
  lakers_score :: pyval
  opponent_score :: pyval
  opponent :: pyval
  location :: string
  won :: bool
  point_diff :: pyval
  status :: pyval

definition LAKERS_TEAM_ID :: int where
  "LAKERS_TEAM_ID = 14"

text \<open>
  The body of the \<^verbatim>\<open>for game in games\<close> loop, lines 77 to 113, statement by
  statement. Every \<^verbatim>\<open>.get\<close> raises \<^verbatim>\<open>AttributeError\<close> on a value that is not a
  dictionary, and returns \<^verbatim>\<open>None\<close>, not the default, for a key that is present
  with \<^verbatim>\<open>null\<close>; the comparison and the subtraction of the scores raise
  \<^verbatim>\<open>TypeError\<close> on values that are not numbers.
\<close>

definition process_game :: "pyval \<Rightarrow> pyerror + game_record" where
  "process_game game =
     and_then (py_get game ''home_team'' (PDict [])) (\<lambda>home_team.
     and_then (py_get game ''visitor_team'' (PDict [])) (\<lambda>visitor_team.
     and_then (py_get game ''home_team_score'' (PInt 0)) (\<lambda>home_score.
     and_then (py_get game ''visitor_team_score'' (PInt 0)) (\<lambda>visitor_score.
     and_then (py_get home_team ''id'' PNone) (\<lambda>home_id.
     and_then
       (if py_eq home_id (PInt LAKERS_TEAM_ID)
        then and_then (py_get visitor_team ''full_name'' (PStr ''Unknown''))
               (\<lambda>opponent_name. Inr (home_score, visitor_score, opponent_name, ''Home''))
        else and_then (py_get home_team ''full_name'' (PStr ''Unknown''))
               (\<lambda>opponent_name. Inr (visitor_score, home_score, opponent_name, ''Away'')))
       (\<lambda>(lakers, other, opponent_name, place).
     and_then (py_gt lakers other) (\<lambda>has_won.
     and_then (py_sub lakers other) (\<lambda>difference.
     and_then (py_get game ''date'' (PStr [])) (\<lambda>game_date.
     and_then (py_get game ''status'' (PStr [])) (\<lambda>game_status.
       Inr \<lparr>date = game_date,
            lakers_score = lakers,
            opponent_score = other,
            opponent = opponent_name,
            location = place,
            won = has_won,
            point_diff = difference,
            status = game_status\<rparr>))))))))))"

text \<open>
  The loop itself: \<open>processed_games\<close> is the list that the loop appends to. An
  exception in one record ends the loop and the call.
\<close>

fun process_games :: "pyval list \<Rightarrow> game_record list \<Rightarrow> pyerror + game_record list" where
  "process_games [] processed_games = Inr processed_games"
| "process_games (game # games) processed_games =
     and_then (process_game game)
       (\<lambda>processed. process_games games (processed_games @ [processed]))"

text \<open>
  \<^verbatim>\<open>processed_games.sort(key=lambda x: x["date"])\<close>. The sort of Python is stable,
  compares keys with \<^verbatim>\<open><\<close> only, and lets the \<^verbatim>\<open>TypeError\<close> of a comparison
  out; it is modelled by a stable insertion sort with the same three properties. On
  keys that \<^verbatim>\<open><\<close> orders, such as strings or numbers, every stable sort gives the
  same list. Among two or more keys of which one can be compared with no other
  (\<^verbatim>\<open>None\<close>, a dictionary, a string among numbers) every sort meets a comparison
  that raises.
\<close>

fun insort_date :: "game_record \<Rightarrow> game_record list \<Rightarrow> pyerror + game_record list" where
  "insort_date x [] = Inr [x]"
| "insort_date x (y # ys) =
     and_then (py_lt (date y) (date x))
       (\<lambda>later. if later then and_then (insort_date x ys) (\<lambda>zs. Inr (y # zs))
                 else Inr (x # y # ys))"

fun sort_by_date :: "game_record list \<Rightarrow> pyerror + game_record list" where
  "sort_by_date [] = Inr []"
| "sort_by_date (x # xs) = and_then (sort_by_date xs) (insort_date x)"

definition lakers_request :: "int \<Rightarrow> int \<Rightarrow> request" where
  "lakers_request season per_page =
     \<lparr>url = BASE_URL @ ''/games'',
      params = [(''team_ids[]'', LAKERS_TEAM_ID), (''seasons[]'', season),
                (''per_page'', per_page)]\<rparr>"

text \<open>
  Nothing is caught in this function: an exception of \<^verbatim>\<open>requests.get\<close>, of
  \<^verbatim>\<open>response.json()\<close>, of the loop or of the sort reaches the caller.
\<close>

definition get_lakers_games ::
  "world \<Rightarrow> int \<Rightarrow> int \<Rightarrow> pyval outcome \<Rightarrow> (pyerror + game_record list) \<times> world" where
  "get_lakers_games w season per_page upstream =
     (let w' = w\<lparr>sent := sent w @ [lakers_request season per_page]\<rparr>
      in case upstream of
           Raised \<Rightarrow> (Inl RequestException, w')
         | Returned response \<Rightarrow>
             if status_code response \<noteq> 200 then (Inr [], w')
             else
               (case json response of
                  None \<Rightarrow> (Inl JSONDecodeError, w')
                | Some body \<Rightarrow>
                    (and_then (py_get body ''data'' (PList [])) (\<lambda>games.
                     and_then (py_iter games) (\<lambda>items.
                     and_then (process_games items []) sort_by_date)), w')))"

text \<open>
  The invariant of a processed game, in the operators of Python:
  \<^verbatim>\<open>won == (point_diff > 0)\<close> and
  \<^verbatim>\<open>point_diff == lakers_score - opponent_score\<close>.
\<close>

definition game_record_invariant :: "game_record \<Rightarrow> bool" where
  "game_record_invariant r =
     (py_gt (point_diff r) (PInt 0) = Inr (won r)
      \<and> (case py_sub (lakers_score r) (opponent_score r) of
            Inl err \<Rightarrow> False
          | Inr difference \<Rightarrow> py_eq (point_diff r) difference))"

text \<open>A score that is an integer (\<^verbatim>\<open>bool\<close> included), the type the API documents.\<close>

fun whole :: "pyval \<Rightarrow> bool" where
  "whole (PInt n) = True"
| "whole (PBool b) = True"
| "whole v = False"

section \<open>Raw records as the API documents them\<close>

text \<open>
  A raw game as upstream documents it, every key optional: \<open>None\<close> is a key that the
  dictionary does not have. Team identifiers and scores are integers, names, dates
  and statuses are strings. \<open>game_dict\<close> is the dictionary that
  \<^verbatim>\<open>response.json()\<close> holds for such a game.
\<close>

record raw_team =
  team_id :: "int option"
  full_name :: "string option"

record raw_game =
  home_team :: "raw_team option"
  visitor_team :: "raw_team option"
  home_team_score :: "int option"
  visitor_team_score :: "int option"
  raw_date :: "string option"
  raw_status :: "string option"

fun entry :: "string \<Rightarrow> pyval option \<Rightarrow> (string \<times> pyval) list" where
  "entry k None = []"
| "entry k (Some v) = [(k, v)]"

definition team_dict :: "raw_team \<Rightarrow> pyval" where
  "team_dict t =
     PDict (entry ''id'' (map_option PInt (team_id t))
            @ entry ''full_name'' (map_option PStr (full_name t)))"

definition game_dict :: "raw_game \<Rightarrow> pyval" where
  "game_dict g =
     PDict (entry ''date'' (map_option PStr (raw_date g))
            @ entry ''home_team'' (map_option team_dict (home_team g))
            @ entry ''home_team_score'' (map_option PInt (home_team_score g))
            @ entry ''status'' (map_option PStr (raw_status g))
            @ entry ''visitor_team'' (map_option team_dict (visitor_team g))
            @ entry ''visitor_team_score'' (map_option PInt (visitor_team_score g)))"

text \<open>The body of a games response that lists these games.\<close>

definition games_body :: "raw_game list \<Rightarrow> pyval" where
  "games_body games = PDict [(''data'', PList (map game_dict games))]"

section \<open>Dates\<close>

text \<open>
  The dates of upstream are ISO 8601 strings (\<^verbatim>\<open>main.py\<close> reads the same field with
  \<^verbatim>\<open>datetime.fromisoformat\<close>): four digits of year, two of month, two of day,
  then possibly a time of day. \<open>iso_date\<close> writes the date part.
\<close>

definition two_digits :: "nat \<Rightarrow> string" where
  "two_digits n = [''0123456789'' ! (n div 10), ''0123456789'' ! (n mod 10)]"

definition four_digits :: "nat \<Rightarrow> string" where
  "four_digits n = two_digits (n div 100) @ two_digits (n mod 100)"

definition iso_date :: "nat \<Rightarrow> nat \<Rightarrow> nat \<Rightarrow> string" where
  "iso_date y m d = four_digits y @ ''-'' @ two_digits m @ ''-'' @ two_digits d"

section \<open>The fetch-with-fallback protocol of the specification\<close>







text \<open>The entry of \<^verbatim>\<open>get_fixed_team\<close>, when there is one, holds a truthy value.\<close>

definition team_entry_truthy :: "world \<Rightarrow> bool" where
  "team_entry_truthy w = (case cache w team_key of None \<Rightarrow> True | Some (v, ts) \<Rightarrow> truthy v)"

section \<open>The normalization of the specification\<close>

text \<open>
  Section 4.3 of the specification, on a raw record as upstream documents it: home or
  away by the identifier of the home team, the scores and the name of the opponent
  assigned accordingly, \<open>pointDiff = teamScore - opponentScore\<close>,
  \<open>won = (pointDiff > 0)\<close>, and a missing field defaulted (score 0, name
  \<^verbatim>\<open>Unknown\<close>, status and date empty).
\<close>

fun dict_get :: "'a option \<Rightarrow> 'a \<Rightarrow> 'a" where
  "dict_get None d = d"
| "dict_get (Some v) d = v"

definition no_team :: raw_team where
  "no_team = \<lparr>team_id = None, full_name = None\<rparr>"

definition subject_at_home :: "raw_game \<Rightarrow> bool" where
  "subject_at_home g = (team_id (dict_get (home_team g) no_team) = Some 14)"

definition teamScore :: "raw_game \<Rightarrow> int" where
  "teamScore g =
     (if subject_at_home g then dict_get (home_team_score g) 0
      else dict_get (visitor_team_score g) 0)"

definition opponentScore :: "raw_game \<Rightarrow> int" where
  "opponentScore g =
     (if subject_at_home g then dict_get (visitor_team_score g) 0
      else dict_get (home_team_score g) 0)"

definition opponentName :: "raw_game \<Rightarrow> string" where
  "opponentName g =
     dict_get (full_name (dict_get (if subject_at_home g then visitor_team g else home_team g)
                            no_team)) ''Unknown''"

definition normalize :: "raw_game \<Rightarrow> game_record" where
  "normalize g =
     \<lparr>date = PStr (dict_get (raw_date g) []),
      lakers_score = PInt (teamScore g),
      opponent_score = PInt (opponentScore g),
      opponent = PStr (opponentName g),
      location = (if subject_at_home g then ''Home'' else ''Away''),
      won = (teamScore g - opponentScore g > 0),
      point_diff = PInt (teamScore g - opponentScore g),
      status = PStr (dict_get (raw_status g) [])\<rparr>"

section \<open>Concrete inputs\<close>

text \<open>The state of a process that has neither stored nor requested anything.\<close>

definition empty_world :: world where
  "empty_world = \<lparr>cache = Map.empty, sent = []\<rparr>"

text \<open>A state with one entry per query function, both stored at time 0.\<close>

definition games_value :: pyval where
  "games_value = PList [PDict [(''id'', PInt 1)]]"

definition team_value :: pyval where
  "team_value = PTuple [PStr ''Lakers'', PStr ''Los Angeles'', PStr ''LAL'']"

definition cached_world :: world where
  "cached_world =
     \<lparr>cache = [''games_14_2024_25'' \<mapsto> (games_value, 0), ''team_14'' \<mapsto> (team_value, 0)],
      sent = []\<rparr>"

text \<open>Responses with status 200: a games body, a team body, and the body \<^verbatim>\<open>{"data": null}\<close>.\<close>

definition games_response :: "pyval outcome" where
  "games_response = Returned (Response 200 (Some (PDict [(''data'', games_value)])))"

definition team_response :: "pyval outcome" where
  "team_response =
     Returned (Response 200 (Some (PDict [(''data'',
       PDict [(''name'', PStr ''Lakers''), (''city'', PStr ''Los Angeles''),
              (''abbreviation'', PStr ''LAL'')])])))"

definition null_data_response :: "pyval outcome" where
  "null_data_response = Returned (Response 200 (Some (PDict [(''data'', PNone)])))"

text \<open>A finished game between two teams, with every field present.\<close>

definition played ::
  "int \<Rightarrow> string \<Rightarrow> int \<Rightarrow> int \<Rightarrow> string \<Rightarrow> int \<Rightarrow> string \<Rightarrow> raw_game" where
  "played home_id home_name home_score visitor_id visitor_name visitor_score day =
     \<lparr>home_team = Some \<lparr>team_id = Some home_id, full_name = Some home_name\<rparr>,
      visitor_team = Some \<lparr>team_id = Some visitor_id, full_name = Some visitor_name\<rparr>,
      home_team_score = Some home_score,
      visitor_team_score = Some visitor_score,
      raw_date = Some day,
      raw_status = Some ''Final''\<rparr>"

text \<open>The dictionary \<^verbatim>\<open>{}\<close> as a game record: every key is missing.\<close>

definition bare_game :: raw_game where
  "bare_game =
     \<lparr>home_team = None, visitor_team = None, home_team_score = None,
      visitor_team_score = None, raw_date = None, raw_status = None\<rparr>"

text \<open>
  A game in which team 14, at home, has an integer score of \<open>2 ^ 53 + 1\<close> and the
  visitor has the float score \<open>2 ^ 53\<close>.
\<close>

definition float_score_game :: pyval where
  "float_score_game =
     PDict [(''date'', PStr ''2024-01-10''),
            (''home_team'', PDict [(''id'', PInt 14), (''full_name'', PStr ''Lakers'')]),
            (''home_team_score'', PInt 9007199254740993),
            (''status'', PStr ''Final''),
            (''visitor_team'', PDict [(''id'', PInt 2), (''full_name'', PStr ''Celtics'')]),
            (''visitor_team_score'', PFloat (Finite 9007199254740992 0))]"



text \<open>The string of a date, empty for a date that is not a string.\<close>

definition date_text :: "game_record \<Rightarrow> string" where
  "date_text r = (case date r of PStr s \<Rightarrow> s | _ \<Rightarrow> [])"

text \<open>
  The dictionaries of one game seen from both sides: team 14 at home with 100 points
  against 90, and the same two teams with their places and scores exchanged.
\<close>

definition lakers_items :: "(string \<times> pyval) list" where
  "lakers_items = [(''id'', PInt 14), (''full_name'', PStr ''Lakers'')]"

definition celtics_items :: "(string \<times> pyval) list" where
  "celtics_items = [(''id'', PInt 2), (''full_name'', PStr ''Celtics'')]"

definition home_game_items :: "(string \<times> pyval) list" where
  "home_game_items =
     [(''date'', PStr ''2024-01-10''),
      (''home_team'', PDict lakers_items),
      (''home_team_score'', PInt 100),
      (''status'', PStr ''Final''),
      (''visitor_team'', PDict celtics_items),
      (''visitor_team_score'', PInt 90)]"

definition away_game_items :: "(string \<times> pyval) list" where
  "away_game_items =
     [(''date'', PStr ''2024-01-10''),
      (''home_team'', PDict celtics_items),
      (''home_team_score'', PInt 90),
      (''status'', PStr ''Final''),
      (''visitor_team'', PDict lakers_items),
      (''visitor_team_score'', PInt 100)]"

text \<open>
  A game without the visitor's name and score and without a status; the other keys
  are present.
\<close>

definition partial_game :: raw_game where
  "partial_game =
     \<lparr>home_team = Some \<lparr>team_id = Some 14, full_name = Some ''Lakers''\<rparr>,
      visitor_team = Some \<lparr>team_id = Some 7, full_name = None\<rparr>,
      home_team_score = Some 101,
      visitor_team_score = None,
      raw_date = Some ''2024-02-15'',
      raw_status = None\<rparr>"


section \<open>Cache keys\<close>

lemma games_key_14_2024_25: "games_key 14 2024 25 = ''games_14_2024_25''"
  by (simp add: games_key_def str_int_def digits.simps)

lemma team_key_value: "team_key = ''team_14''"
  by (simp add: team_key_def FIXED_TEAM_ID_def str_int_def digits.simps)

lemma games_key_not_team_key: "games_key tid season per_page \<noteq> team_key"
  by (simp add: team_key_value games_key_def)

section \<open>Reading the cache\<close>

lemma get_cached_entry:
  "c k = Some (v, ts) \<Longrightarrow>
   get_cached c k al now =
     (if now - ts < CACHE_DURATION then (v, True)
      else if al then (v, False) else (PNone, False))"
  by (simp add: get_cached_def)

lemma get_cached_absent: "c k = None \<Longrightarrow> get_cached c k al now = (PNone, False)"
  by (simp add: get_cached_def)

lemma stale_fallback_entry:
  "c k = Some (v, ts) \<Longrightarrow> stale_fallback c k now nd = (if truthy v then v else nd)"
  by (simp add: stale_fallback_def get_cached_entry)

lemma stale_fallback_absent: "c k = None \<Longrightarrow> stale_fallback c k now nd = nd"
  by (simp add: stale_fallback_def get_cached_absent)

section \<open>The query functions when the upstream call fails\<close>

lemma get_team_games_fails:
  assumes "upstream_fails upstream"
  shows "get_team_games w tid season per_page t1 upstream t2 =
     (if fst (get_cached (cache w) (games_key tid season per_page) False t1) \<noteq> PNone
         \<and> snd (get_cached (cache w) (games_key tid season per_page) False t1)
      then (fst (get_cached (cache w) (games_key tid season per_page) False t1), w)
      else (stale_fallback (cache w) (games_key tid season per_page) t2 (PList []),
            w\<lparr>sent := sent w @ [games_request tid season per_page]\<rparr>))"
  using assms
  by (cases upstream) (simp_all add: get_team_games_def Let_def split: prod.splits)

lemma get_fixed_team_fails:
  assumes "upstream_fails upstream"
  shows "get_fixed_team w t1 upstream t2 =
     (if fst (get_cached (cache w) team_key False t1) \<noteq> PNone
         \<and> snd (get_cached (cache w) team_key False t1)
      then (fst (get_cached (cache w) team_key False t1), w)
      else (stale_fallback (cache w) team_key t2 PNone,
            w\<lparr>sent := sent w @ [team_request]\<rparr>))"
  using assms
  by (cases upstream) (simp_all add: get_fixed_team_def Let_def split: prod.splits)

section \<open>The query functions on concrete inputs\<close>

lemma cached_world_games:
  "cache cached_world (games_key 14 2024 25) = Some (games_value, 0)"
  by (simp add: cached_world_def games_key_14_2024_25)

lemma cached_world_team: "cache cached_world team_key = Some (team_value, 0)"
  by (simp add: cached_world_def team_key_value)

lemma truthy_examples: "truthy games_value" "truthy team_value"
  by (simp_all add: games_value_def team_value_def)

lemma not_none_examples: "games_value \<noteq> PNone" "team_value \<noteq> PNone"
  by (simp_all add: games_value_def team_value_def)

lemma null_data_stored:
  "get_team_games empty_world 14 2024 25 0 null_data_response 0 =
     (PNone, \<lparr>cache = [''games_14_2024_25'' \<mapsto> (PNone, 0)],
              sent = [games_request 14 2024 25]\<rparr>)"
  by (simp add: get_team_games_def get_cached_def empty_world_def null_data_response_def
      games_result_def set_cache_def games_key_14_2024_25)

lemma get_team_games_stores:
  "get_team_games empty_world 14 2024 25 0 games_response 0 =
     (games_value, \<lparr>cache = [''games_14_2024_25'' \<mapsto> (games_value, 0)],
                     sent = [games_request 14 2024 25]\<rparr>)"
  by (simp add: get_team_games_def get_cached_def empty_world_def games_response_def
      games_result_def set_cache_def games_key_14_2024_25)

lemma get_fixed_team_stores:
  "get_fixed_team empty_world 0 team_response 0 =
     (team_value, \<lparr>cache = [''team_14'' \<mapsto> (team_value, 0)], sent = [team_request]\<rparr>)"
  by (simp add: get_fixed_team_def get_cached_def empty_world_def team_response_def
      team_result_def set_cache_def team_key_value team_value_def)

section \<open>get_lakers_games\<close>

lemma and_then_Inr_iff: "and_then m f = Inr y \<longleftrightarrow> (\<exists>x. m = Inr x \<and> f x = Inr y)"
  by (cases m) simp_all

lemma py_lt_ints: "py_lt (PInt a) (PInt b) = Inr (a < b)"
  by simp

lemma py_gt_ints: "py_gt (PInt a) (PInt b) = Inr (b < a)"
  by (simp add: py_gt_def)

lemma py_sub_ints: "py_sub (PInt a) (PInt b) = Inr (PInt (a - b))"
  by simp

lemma py_eq_ints: "py_eq (PInt a) (PInt b) = (a = b)"
  by simp

lemma py_lt_strs: "py_lt (PStr s) (PStr t) = Inr (s < t)"
  by simp

text \<open>Reading the dictionary of a raw record as the API documents it.\<close>

lemma map_of_entry:
  "map_of (entry k v @ rest) k' =
     (if k' = k then (case v of None \<Rightarrow> map_of rest k' | Some x \<Rightarrow> Some x) else map_of rest k')"
  by (cases v) simp_all

lemma map_of_entry_last:
  "map_of (entry k v) k' = (if k' = k then v else None)"
  by (cases v) simp_all

lemma team_dict_no_team: "team_dict no_team = PDict []"
  by (simp add: team_dict_def no_team_def)

lemma py_get_team_dict:
  "py_get (team_dict t) ''id'' PNone = Inr (case team_id t of None \<Rightarrow> PNone | Some i \<Rightarrow> PInt i)"
  "py_get (team_dict t) ''full_name'' (PStr ''Unknown'') =
     Inr (PStr (dict_get (full_name t) ''Unknown''))"
  by (cases "team_id t"; cases "full_name t";
      simp add: team_dict_def map_of_entry map_of_entry_last del: map_of_append)+

lemma map_of_game_dict:
  "game_dict g = PDict kvs \<Longrightarrow>
     map_of kvs ''home_team'' = map_option team_dict (home_team g)
     \<and> map_of kvs ''visitor_team'' = map_option team_dict (visitor_team g)
     \<and> map_of kvs ''home_team_score'' = map_option PInt (home_team_score g)
     \<and> map_of kvs ''visitor_team_score'' = map_option PInt (visitor_team_score g)
     \<and> map_of kvs ''date'' = map_option PStr (raw_date g)
     \<and> map_of kvs ''status'' = map_option PStr (raw_status g)"
  by (auto simp add: game_dict_def map_of_entry map_of_entry_last
      simp del: map_of_append split: option.splits)

lemma py_get_game_dict:
  "py_get (game_dict g) ''home_team'' (PDict []) =
     Inr (team_dict (dict_get (home_team g) no_team))"
  "py_get (game_dict g) ''visitor_team'' (PDict []) =
     Inr (team_dict (dict_get (visitor_team g) no_team))"
  "py_get (game_dict g) ''home_team_score'' (PInt 0) =
     Inr (PInt (dict_get (home_team_score g) 0))"
  "py_get (game_dict g) ''visitor_team_score'' (PInt 0) =
     Inr (PInt (dict_get (visitor_team_score g) 0))"
  "py_get (game_dict g) ''date'' (PStr []) = Inr (PStr (dict_get (raw_date g) []))"
  "py_get (game_dict g) ''status'' (PStr []) = Inr (PStr (dict_get (raw_status g) []))"
proof -
  obtain kvs where kvs: "game_dict g = PDict kvs"
    by (simp add: game_dict_def)
  note found = map_of_game_dict [OF kvs]
  show "py_get (game_dict g) ''home_team'' (PDict []) =
     Inr (team_dict (dict_get (home_team g) no_team))"
    using found by (cases "home_team g") (simp_all add: kvs team_dict_no_team)
  show "py_get (game_dict g) ''visitor_team'' (PDict []) =
     Inr (team_dict (dict_get (visitor_team g) no_team))"
    using found by (cases "visitor_team g") (simp_all add: kvs team_dict_no_team)
  show "py_get (game_dict g) ''home_team_score'' (PInt 0) =
     Inr (PInt (dict_get (home_team_score g) 0))"
    using found by (cases "home_team_score g") (simp_all add: kvs)
  show "py_get (game_dict g) ''visitor_team_score'' (PInt 0) =
     Inr (PInt (dict_get (visitor_team_score g) 0))"
    using found by (cases "visitor_team_score g") (simp_all add: kvs)
  show "py_get (game_dict g) ''date'' (PStr []) = Inr (PStr (dict_get (raw_date g) []))"
    using found by (cases "raw_date g") (simp_all add: kvs)
  show "py_get (game_dict g) ''status'' (PStr []) = Inr (PStr (dict_get (raw_status g) []))"
    using found by (cases "raw_status g") (simp_all add: kvs)
qed

lemma py_eq_team_id:
  "py_eq (case team_id t of None \<Rightarrow> PNone | Some i \<Rightarrow> PInt i) (PInt 14) = (team_id t = Some 14)"
  by (cases "team_id t") simp_all

text \<open>
  On such a record the loop body of the code computes the normalization of the
  specification, and the whole loop normalizes every record of the list.
\<close>

lemma process_game_game_dict: "process_game (game_dict g) = Inr (normalize g)"
  by (simp add: process_game_def py_get_game_dict py_get_team_dict py_eq_team_id
      LAKERS_TEAM_ID_def py_gt_ints py_sub_ints normalize_def subject_at_home_def
      teamScore_def opponentScore_def opponentName_def
      del: py_sub.simps py_get.simps py_eq.simps)

lemma process_games_game_dicts:
  "process_games (map game_dict games) acc = Inr (acc @ map normalize games)"
  by (induction games arbitrary: acc) (simp_all add: process_game_game_dict)

lemma process_games_from:
  assumes "process_games items acc = Inr gs"
  shows "\<forall>r \<in> set gs. r \<in> set acc \<or> (\<exists>item. process_game item = Inr r)"
  using assms
proof (induction items arbitrary: acc)
  case Nil
  then show ?case by simp
next
  case (Cons item items)
  from Cons.prems obtain r where r: "process_game item = Inr r"
    and rest: "process_games items (acc @ [r]) = Inr gs"
    by (auto simp add: and_then_Inr_iff)
  from Cons.IH [OF rest] r show ?case by auto
qed

text \<open>
  The sort keeps the records it is given, and on dates that are strings it is the
  stable sort of the library by the order of the strings.
\<close>

lemma insort_date_set:
  assumes "insort_date x ys = Inr zs"
  shows "set zs = insert x (set ys)"
  using assms
proof (induction ys arbitrary: zs)
  case Nil
  then show ?case by auto
next
  case (Cons y ys)
  then show ?case
    by (auto simp add: and_then_Inr_iff split: if_splits)
qed

lemma sort_by_date_set:
  assumes "sort_by_date gs = Inr ps"
  shows "set ps = set gs"
  using assms
proof (induction gs arbitrary: ps)
  case Nil
  then show ?case by simp
next
  case (Cons g gs)
  from Cons.prems obtain qs where qs: "sort_by_date gs = Inr qs"
    and ps: "insort_date g qs = Inr ps"
    by (auto simp add: and_then_Inr_iff)
  from Cons.IH [OF qs] insort_date_set [OF ps] show ?case by simp
qed

lemma insort_date_texts:
  assumes "date x = PStr s" "\<forall>y \<in> set ys. \<exists>t. date y = PStr t"
  shows "insort_date x ys = Inr (insort_key date_text x ys)"
  using assms
proof (induction ys)
  case Nil
  then show ?case by simp
next
  case (Cons y ys)
  from Cons.prems obtain t where t: "date y = PStr t" by auto
  from Cons.prems have rest: "insort_date x ys = Inr (insort_key date_text x ys)"
    by (intro Cons.IH) auto
  have texts: "date_text x = s" "date_text y = t"
    using t Cons.prems(1) by (simp_all add: date_text_def)
  show ?case
    using t Cons.prems(1) rest texts by auto
qed

lemma sort_by_date_texts:
  assumes "\<forall>y \<in> set gs. \<exists>t. date y = PStr t"
  shows "sort_by_date gs = Inr (sort_key date_text gs)"
  using assms
proof (induction gs)
  case Nil
  then show ?case by simp
next
  case (Cons g gs)
  from Cons.prems obtain s where s: "date g = PStr s" by auto
  from Cons.prems have sorted_rest: "sort_by_date gs = Inr (sort_key date_text gs)"
    by (intro Cons.IH) auto
  from Cons.prems have "\<forall>y \<in> set (sort_key date_text gs). \<exists>t. date y = PStr t"
    by simp
  from insort_date_texts [OF s this] sorted_rest show ?case
    by simp
qed

lemma insort_key_map:
  "insort_key f (h x) (map h ys) = map h (insort_key (\<lambda>y. f (h y)) x ys)"
  by (induction ys) simp_all

lemma sort_key_map:
  "sort_key f (map h xs) = map h (sort_key (\<lambda>y. f (h y)) xs)"
  by (induction xs) (simp_all add: insort_key_map)

lemma date_text_normalize: "date_text (normalize g) = dict_get (raw_date g) []"
  by (simp add: date_text_def normalize_def)

lemma sort_by_date_normalized:
  "sort_by_date (map normalize games) =
     Inr (map normalize (sort_key (\<lambda>g. dict_get (raw_date g) []) games))"
proof -
  have "\<forall>y \<in> set (map normalize games). \<exists>t. date y = PStr t"
    by (simp add: normalize_def)
  from sort_by_date_texts [OF this] show ?thesis
    by (simp add: sort_key_map date_text_normalize)
qed

text \<open>What a call that returns a list has returned.\<close>

lemma get_lakers_games_returns:
  assumes "fst (get_lakers_games w season per_page upstream) = Inr ps"
  shows "ps = [] \<or> (\<exists>items gs. process_games items [] = Inr gs \<and> sort_by_date gs = Inr ps)"
  using assms
  by (auto simp add: get_lakers_games_def Let_def and_then_Inr_iff
      split: outcome.splits if_splits option.splits)

lemma get_lakers_games_records:
  assumes "fst (get_lakers_games w season per_page upstream) = Inr ps"
  shows "\<forall>r \<in> set ps. \<exists>item. process_game item = Inr r"
proof -
  from get_lakers_games_returns [OF assms] show ?thesis
  proof
    assume "ps = []"
    then show ?thesis by simp
  next
    assume "\<exists>items gs. process_games items [] = Inr gs \<and> sort_by_date gs = Inr ps"
    then obtain items gs where gs: "process_games items [] = Inr gs"
      and ps: "sort_by_date gs = Inr ps" by blast
    from process_games_from [OF gs] sort_by_date_set [OF ps] show ?thesis by simp
  qed
qed


lemma get_lakers_games_game_dicts:
  "fst (get_lakers_games w season per_page (Returned (Response 200 (Some (games_body games)))))
     = sort_by_date (map normalize games)"
  by (simp add: get_lakers_games_def games_body_def process_games_game_dicts)

lemma returned_sorted_texts:
  assumes "fst (get_lakers_games w season per_page upstream) = Inr ps"
    and "\<forall>r \<in> set ps. date r = PStr (text r)"
  shows "sorted (map text ps)"
proof -
  from get_lakers_games_returns [OF assms(1)] show ?thesis
  proof
    assume "ps = []"
    then show ?thesis by simp
  next
    assume "\<exists>items gs. process_games items [] = Inr gs \<and> sort_by_date gs = Inr ps"
    then obtain gs where ps: "sort_by_date gs = Inr ps" by blast
    from sort_by_date_set [OF ps] assms(2) have "\<forall>y \<in> set gs. \<exists>t. date y = PStr t"
      by auto
    from sort_by_date_texts [OF this] ps have "ps = sort_key date_text gs"
      by simp
    then have "sorted (map date_text ps)"
      by simp
    moreover have "map date_text ps = map text ps"
      using assms(2) by (simp add: date_text_def)
    ultimately show ?thesis by simp
  qed
qed

text \<open>
  \<open>won\<close> and \<open>point_diff\<close> of a processed record are the comparison and the
  difference of its two scores.
\<close>

lemma process_game_scores:
  assumes "process_game item = Inr r"
  shows "py_gt (lakers_score r) (opponent_score r) = Inr (won r)
         \<and> py_sub (lakers_score r) (opponent_score r) = Inr (point_diff r)"
  using assms
  by (auto simp add: process_game_def and_then_Inr_iff split: if_splits
      simp del: py_sub.simps py_get.simps py_eq.simps)

lemma whole_scores_invariant:
  assumes "py_gt a b = Inr w" "py_sub a b = Inr d" "whole a" "whole b"
  shows "py_gt d (PInt 0) = Inr w \<and> py_eq d d"
  using assms by (cases a; cases b) (auto simp add: py_gt_def)

text \<open>Concrete records.\<close>

lemma normalize_played:
  "normalize (played h hn hs v vn vs day) =
     (if h = 14
      then \<lparr>date = PStr day, lakers_score = PInt hs, opponent_score = PInt vs,
            opponent = PStr vn, location = ''Home'', won = (vs < hs),
            point_diff = PInt (hs - vs), status = PStr ''Final''\<rparr>
      else \<lparr>date = PStr day, lakers_score = PInt vs, opponent_score = PInt hs,
            opponent = PStr hn, location = ''Away'', won = (hs < vs),
            point_diff = PInt (vs - hs), status = PStr ''Final''\<rparr>)"
  by (simp add: normalize_def played_def subject_at_home_def teamScore_def opponentScore_def
      opponentName_def)




lemma raw_dates:
  "raw_date (played h hn hs v vn vs d) = Some d"
  "raw_date bare_game = None"
  "raw_date partial_game = Some ''2024-02-15''"
  by (simp_all add: played_def bare_game_def partial_game_def)

lemma get_lakers_games_two:
  "fst (get_lakers_games empty_world 2023 25
         (Returned (Response 200 (Some (games_body
            [played 14 ''Lakers'' 100 2 ''Celtics'' 90 ''2024-01-10'',
             played 5 ''Bulls'' 120 14 ''Lakers'' 115 ''2024-01-12''])))))
     = Inr [\<lparr>date = PStr ''2024-01-10'', lakers_score = PInt 100, opponent_score = PInt 90,
              opponent = PStr ''Celtics'', location = ''Home'', won = True,
              point_diff = PInt 10, status = PStr ''Final''\<rparr>,
            \<lparr>date = PStr ''2024-01-12'', lakers_score = PInt 115, opponent_score = PInt 120,
              opponent = PStr ''Bulls'', location = ''Away'', won = False,
              point_diff = PInt (- 5), status = PStr ''Final''\<rparr>]"
  by (simp add: get_lakers_games_game_dicts normalize_played)

lemma float_difference:
  "py_sub (PInt 9007199254740993) (PFloat (Finite 9007199254740992 0)) = Inr (PFloat (Finite 0 0))"
  by code_simp

lemma float_comparison:
  "py_gt (PInt 9007199254740993) (PFloat (Finite 9007199254740992 0)) = Inr True"
  by (simp add: py_gt_def)

lemma process_float_score_game:
  "process_game float_score_game =
     Inr \<lparr>date = PStr ''2024-01-10'', lakers_score = PInt 9007199254740993,
          opponent_score = PFloat (Finite 9007199254740992 0), opponent = PStr ''Celtics'',
          location = ''Home'', won = True, point_diff = PFloat (Finite 0 0),
          status = PStr ''Final''\<rparr>"
  by (simp add: process_game_def float_score_game_def LAKERS_TEAM_ID_def float_difference
      float_comparison del: py_sub.simps)



section \<open>The cache store: freshness\<close>

lemma get_cached_set_cache:
  "get_cached (set_cache c k v T) k al now =
     (if now - T < CACHE_DURATION then (v, True)
      else if al then (v, False) else (PNone, False))"
  by (simp add: get_cached_def set_cache_def)

text \<open>
  C1, as the code has it. An entry stored under \<open>k\<close> at time \<open>T\<close> is read by
  \<^verbatim>\<open>get_cached(k)\<close> (\<^verbatim>\<open>allow_stale=False\<close>) as the stored value with
  \<^verbatim>\<open>is_fresh = True\<close> at every time in \<open>[T, T + D)\<close>, \<open>D\<close> being five minutes.
  At every time from \<open>T + D\<close> on the same read returns \<^verbatim>\<open>(None, False)\<close>: the stored
  value is handed out with \<^verbatim>\<open>is_fresh = False\<close> only when \<^verbatim>\<open>allow_stale=True\<close>.
\<close>

theorem C1_freshness_window:
  "(T \<le> now \<and> now < T + CACHE_DURATION \<longrightarrow>
      get_cached (set_cache c k v T) k False now = (v, True))
   \<and> (T + CACHE_DURATION \<le> now \<longrightarrow>
      get_cached (set_cache c k v T) k False now = (PNone, False)
      \<and> get_cached (set_cache c k v T) k True now = (v, False))"
  by (simp add: get_cached_set_cache)

theorem C1_freshness_window_witness:
  "((0::int) \<le> 299999999 \<and> 299999999 < 0 + CACHE_DURATION
      \<and> get_cached (set_cache Map.empty ''k'' (PInt 7) 0) ''k'' False 299999999 = (PInt 7, True))
   \<and> (0 + CACHE_DURATION \<le> (300000000::int)
      \<and> get_cached (set_cache Map.empty ''k'' (PInt 7) 0) ''k'' False 300000000 = (PNone, False)
      \<and> get_cached (set_cache Map.empty ''k'' (PInt 7) 0) ''k'' True 300000000 = (PInt 7, False))"
  using C1_freshness_window [of 0 299999999 Map.empty "''k''" "PInt 7"]
        C1_freshness_window [of 0 300000000 Map.empty "''k''" "PInt 7"]
  by (simp add: CACHE_DURATION_def)

text \<open>
  C1 as the specification states it does not hold: five minutes after the entry was stored,
  \<^verbatim>\<open>get_cached(k)\<close> does not return the stored value \<open>7\<close>.
\<close>

theorem C1_stale_read_counterexample:
  "fst (get_cached (set_cache Map.empty ''k'' (PInt 7) 0) ''k'' False 300000000) \<noteq> PInt 7"
  by (simp add: get_cached_def set_cache_def CACHE_DURATION_def)

section \<open>The fetch-with-fallback protocol in the code\<close>

text \<open>
  The entry under the key of \<^verbatim>\<open>get_fixed_team\<close>, when there is one, is truthy in
  every state that the two query functions reach from a state where it is: only
  \<^verbatim>\<open>get_fixed_team\<close> writes under that key, and it writes a tuple of three.
\<close>

lemma team_result_truthy: "team_result response = Inr v \<Longrightarrow> truthy v"
  by (auto simp add: team_result_def split: option.splits sum.splits)

lemma get_fixed_team_cache:
  "cache (snd (get_fixed_team w t1 upstream t2)) = cache w
   \<or> (\<exists>v. team_result (case upstream of Returned r \<Rightarrow> r) = Inr v
          \<and> cache (snd (get_fixed_team w t1 upstream t2)) = (cache w)(team_key \<mapsto> (v, t2)))"
  by (cases upstream)
     (simp_all add: get_fixed_team_def set_cache_def Let_def split: prod.splits sum.splits)

lemma get_team_games_cache_other:
  assumes "k \<noteq> games_key tid season per_page"
  shows "cache (snd (get_team_games w tid season per_page t1 upstream t2)) k = cache w k"
  using assms
  by (cases upstream)
     (simp_all add: get_team_games_def set_cache_def Let_def split: prod.splits sum.splits)

lemma get_fixed_team_keeps_entry_truthy:
  assumes "team_entry_truthy w"
  shows "team_entry_truthy (snd (get_fixed_team w t1 upstream t2))"
  using assms get_fixed_team_cache [of w t1 upstream t2]
  by (auto simp add: team_entry_truthy_def dest: team_result_truthy)

lemma get_team_games_keeps_entry_truthy:
  assumes "team_entry_truthy w"
  shows "team_entry_truthy (snd (get_team_games w tid season per_page t1 upstream t2))"
  using assms games_key_not_team_key [of tid season per_page]
  by (simp add: team_entry_truthy_def get_team_games_cache_other)






text \<open>
  C3, as the code has it. When the entry under the key is fresh at the first clock
  reading and its value is not \<^verbatim>\<open>None\<close>, \<^verbatim>\<open>get_team_games\<close> and
  \<^verbatim>\<open>get_fixed_team\<close> return the cached value and leave the state as it was: no request
  is sent, whatever the upstream would have answered.
\<close>

theorem C3_fresh_hit_no_request:
  "(cache w (games_key tid season per_page) = Some (v, ts) \<and> t1 - ts < CACHE_DURATION
      \<and> v \<noteq> PNone
      \<longrightarrow> get_team_games w tid season per_page t1 upstream t2 = (v, w))
   \<and> (cache w team_key = Some (v', ts') \<and> t1 - ts' < CACHE_DURATION \<and> v' \<noteq> PNone
      \<longrightarrow> get_fixed_team w t1 upstream' t2 = (v', w))"
  by (simp add: get_team_games_def get_fixed_team_def get_cached_entry)

theorem C3_fresh_hit_no_request_witness:
  "(cache cached_world (games_key 14 2024 25) = Some (games_value, 0)
      \<and> (299999999::int) - 0 < CACHE_DURATION \<and> games_value \<noteq> PNone
      \<and> get_team_games cached_world 14 2024 25 299999999 Raised 299999999
          = (games_value, cached_world))
   \<and> (cache cached_world team_key = Some (team_value, 0)
      \<and> (299999999::int) - 0 < CACHE_DURATION \<and> team_value \<noteq> PNone
      \<and> get_fixed_team cached_world 299999999 Raised 299999999 = (team_value, cached_world))"
  using C3_fresh_hit_no_request
          [of cached_world 14 2024 25 games_value 0 299999999 Raised 299999999
              team_value 0 Raised]
  by (simp add: cached_world_games cached_world_team not_none_examples CACHE_DURATION_def)

text \<open>
  C3 as the specification states it does not hold of a fresh entry that holds \<^verbatim>\<open>None\<close>. Upstream
  answers the first call, at time 0, with status 200 and the body
  \<^verbatim>\<open>{"data": null}\<close>, and \<^verbatim>\<open>None\<close> is stored. The entry is fresh one microsecond
  later, and the call made then sends a second request.
\<close>

theorem C3_fresh_none_counterexample:
  "cache (snd (get_team_games empty_world 14 2024 25 0 null_data_response 0))
       (games_key 14 2024 25) = Some (PNone, 0)
   \<and> (1::int) - 0 < CACHE_DURATION
   \<and> sent (snd (get_team_games
              (snd (get_team_games empty_world 14 2024 25 0 null_data_response 0))
              14 2024 25 1 games_response 1))
       = [games_request 14 2024 25, games_request 14 2024 25]
   \<and> fst (get_team_games
             (snd (get_team_games empty_world 14 2024 25 0 null_data_response 0))
             14 2024 25 1 games_response 1) \<noteq> PNone"
  unfolding null_data_stored
  by (simp add: games_key_14_2024_25 CACHE_DURATION_def get_team_games_def get_cached_def
      games_response_def games_result_def games_value_def set_cache_def)




text \<open>
  C5. When the upstream call fails and the cache has no entry for the key,
  \<^verbatim>\<open>get_team_games\<close> returns the empty list and \<^verbatim>\<open>get_fixed_team\<close> returns
  \<^verbatim>\<open>None\<close>. Both return a value: the exception of the request is handled inside.
\<close>

theorem C5_no_data_result:
  "(upstream_fails upstream \<and> cache w (games_key tid season per_page) = None
      \<longrightarrow> get_team_games w tid season per_page t1 upstream t2
          = (PList [], w\<lparr>sent := sent w @ [games_request tid season per_page]\<rparr>))
   \<and> (upstream_fails upstream' \<and> cache w team_key = None
      \<longrightarrow> get_fixed_team w t1 upstream' t2 = (PNone, w\<lparr>sent := sent w @ [team_request]\<rparr>))"
  by (simp add: get_team_games_fails get_fixed_team_fails get_cached_absent
        stale_fallback_absent)

theorem C5_no_data_result_witness:
  "(upstream_fails (Raised :: pyval outcome)
      \<and> cache empty_world (games_key 14 2024 25) = None
      \<and> get_team_games empty_world 14 2024 25 0 Raised 1
          = (PList [], \<lparr>cache = Map.empty, sent = [games_request 14 2024 25]\<rparr>))
   \<and> (upstream_fails (Returned (Response 500 None) :: pyval outcome)
      \<and> cache empty_world team_key = None
      \<and> get_fixed_team empty_world 0 (Returned (Response 500 None)) 1
          = (PNone, \<lparr>cache = Map.empty, sent = [team_request]\<rparr>))"
  using C5_no_data_result [of Raised empty_world 14 2024 25 0 1 "Returned (Response 500 None)"]
  by (simp add: empty_world_def)

section \<open>The order of date strings\<close>

text \<open>
  On ISO dates the order of the strings, by which \<^verbatim>\<open>get_lakers_games\<close> sorts, is the
  order of the calendar.
\<close>

lemma digit_code:
  assumes "n < 10"
  shows "of_char (''0123456789'' ! n) = (48 + n :: nat)"
proof -
  from assms have "n \<in> {0, 1, 2, 3, 4, 5, 6, 7, 8, 9}" by auto
  then show ?thesis by (elim insertE emptyE) simp_all
qed

lemma digit_less:
  assumes "a < 10" "b < 10"
  shows "(''0123456789'' ! a < ''0123456789'' ! b) = (a < b)"
  by (simp add: less_char_def digit_code assms)

lemma digit_eq:
  assumes "a < 10" "b < 10"
  shows "(''0123456789'' ! a = ''0123456789'' ! b) = (a = b)"
proof
  assume "''0123456789'' ! a = ''0123456789'' ! b"
  then have "(of_char (''0123456789'' ! a) :: nat) = of_char (''0123456789'' ! b)" by simp
  then show "a = b" by (simp add: digit_code assms)
qed simp

lemma lex_less_10:
  fixes q r q' r' :: nat
  assumes "r < 10" "r' < 10"
  shows "(q < q' \<or> q = q' \<and> r < r') = (10 * q + r < 10 * q' + r')"
  using assms by auto

lemma lex_eq_10:
  fixes q r q' r' :: nat
  assumes "r < 10" "r' < 10"
  shows "(q = q' \<and> r = r') = (10 * q + r = 10 * q' + r')"
  using assms by (cases q q' rule: linorder_cases) auto

lemma lex_less_100:
  fixes q r q' r' :: nat
  assumes "r < 100" "r' < 100"
  shows "(q < q' \<or> q = q' \<and> r < r') = (100 * q + r < 100 * q' + r')"
  using assms by auto

lemma lex_eq_100:
  fixes q r q' r' :: nat
  assumes "r < 100" "r' < 100"
  shows "(q = q' \<and> r = r') = (100 * q + r = 100 * q' + r')"
  using assms by (cases q q' rule: linorder_cases) auto

lemma two_digits_less:
  assumes "a < 100" "b < 100"
  shows "(two_digits a < two_digits b) = (a < b)"
proof -
  have small: "a div 10 < 10" "b div 10 < 10" "a mod 10 < 10" "b mod 10 < 10"
    using assms by simp_all
  have "(two_digits a < two_digits b) =
     (a div 10 < b div 10 \<or> a div 10 = b div 10 \<and> a mod 10 < b mod 10)"
    unfolding two_digits_def Cons_less_Cons
    by (simp only: digit_less [OF small(1,2)] digit_less [OF small(3,4)]
        digit_eq [OF small(1,2)] not_less_Nil simp_thms)
  also have "\<dots> = (10 * (a div 10) + a mod 10 < 10 * (b div 10) + b mod 10)"
    by (rule lex_less_10) (rule small)+
  finally show ?thesis by (simp only: mult_div_mod_eq)
qed


lemma two_digits_eq:
  assumes "a < 100" "b < 100"
  shows "(two_digits a = two_digits b) = (a = b)"
proof -
  have small: "a div 10 < 10" "b div 10 < 10" "a mod 10 < 10" "b mod 10 < 10"
    using assms by simp_all
  have "(two_digits a = two_digits b) = (a div 10 = b div 10 \<and> a mod 10 = b mod 10)"
    unfolding two_digits_def list.inject
    by (simp only: digit_eq [OF small(1,2)] digit_eq [OF small(3,4)] simp_thms)
  also have "\<dots> = (10 * (a div 10) + a mod 10 = 10 * (b div 10) + b mod 10)"
    by (rule lex_eq_10) (rule small)+
  finally show ?thesis by (simp only: mult_div_mod_eq)
qed

lemma append_less_same_length:
  fixes a a' b b' :: string
  assumes "length a = length a'"
  shows "(a @ b < a' @ b') = (a < a' \<or> a = a' \<and> b < b')"
  using assms by (induction a a' rule: list_induct2) auto

lemma append_le_same_length:
  fixes a a' b b' :: string
  assumes "length a = length a'"
  shows "(a @ b \<le> a' @ b') = (a < a' \<or> a = a' \<and> b \<le> b')"
  using assms by (induction a a' rule: list_induct2) auto

lemma length_two_digits: "length (two_digits n) = 2"
  by (simp add: two_digits_def)

lemma length_four_digits: "length (four_digits n) = 4"
  by (simp add: four_digits_def length_two_digits)

lemma four_digits_less:
  assumes "a < 10000" "b < 10000"
  shows "(four_digits a < four_digits b) = (a < b)"
proof -
  have small: "a div 100 < 100" "b div 100 < 100" "a mod 100 < 100" "b mod 100 < 100"
    using assms by simp_all
  have same: "length (two_digits (a div 100)) = length (two_digits (b div 100))"
    by (simp only: length_two_digits)
  have "(four_digits a < four_digits b) =
     (a div 100 < b div 100 \<or> a div 100 = b div 100 \<and> a mod 100 < b mod 100)"
    unfolding four_digits_def append_less_same_length [OF same]
    by (simp only: two_digits_less [OF small(1,2)] two_digits_less [OF small(3,4)]
        two_digits_eq [OF small(1,2)])
  also have "\<dots> = (100 * (a div 100) + a mod 100 < 100 * (b div 100) + b mod 100)"
    by (rule lex_less_100) (rule small)+
  finally show ?thesis by (simp only: mult_div_mod_eq)
qed

lemma four_digits_eq:
  assumes "a < 10000" "b < 10000"
  shows "(four_digits a = four_digits b) = (a = b)"
proof -
  have small: "a div 100 < 100" "b div 100 < 100" "a mod 100 < 100" "b mod 100 < 100"
    using assms by simp_all
  have same: "length (two_digits (a div 100)) = length (two_digits (b div 100))"
    by (simp only: length_two_digits)
  have "(four_digits a = four_digits b) = (a div 100 = b div 100 \<and> a mod 100 = b mod 100)"
    unfolding four_digits_def
    by (simp only: append_eq_append_conv [OF disjI1 [OF same]]
        two_digits_eq [OF small(1,2)] two_digits_eq [OF small(3,4)])
  also have "\<dots> = (100 * (a div 100) + a mod 100 = 100 * (b div 100) + b mod 100)"
    by (rule lex_eq_100) (rule small)+
  finally show ?thesis by (simp only: mult_div_mod_eq)
qed

lemma iso_date_le:
  assumes "y < 10000" "y' < 10000" "m < 100" "m' < 100" "d < 100" "d' < 100"
  shows "(iso_date y m d \<le> iso_date y' m' d') =
         (y < y' \<or> y = y' \<and> (m < m' \<or> m = m' \<and> d \<le> d'))"
proof -
  have len4: "length (four_digits y) = length (four_digits y')"
    by (simp only: length_four_digits)
  have len2: "length (two_digits m) = length (two_digits m')"
    by (simp only: length_two_digits)
  have days: "(two_digits d \<le> two_digits d') = (d \<le> d')"
    using two_digits_less [OF assms(5,6)] two_digits_eq [OF assms(5,6)]
    by (auto simp add: le_less)
  have months: "(two_digits m @ ''-'' @ two_digits d \<le> two_digits m' @ ''-'' @ two_digits d')
     = (m < m' \<or> m = m' \<and> d \<le> d')"
    unfolding append_le_same_length [OF len2]
    by (simp add: two_digits_less [OF assms(3,4)] two_digits_eq [OF assms(3,4)] days)
  have "(iso_date y m d \<le> iso_date y' m' d') =
     (four_digits y < four_digits y' \<or> four_digits y = four_digits y'
        \<and> ''-'' @ two_digits m @ ''-'' @ two_digits d
          \<le> ''-'' @ two_digits m' @ ''-'' @ two_digits d')"
    unfolding iso_date_def by (rule append_le_same_length [OF len4])
  also have "\<dots> = (y < y' \<or> y = y' \<and> (m < m' \<or> m = m' \<and> d \<le> d'))"
    using months
    by (simp add: four_digits_less [OF assms(1,2)] four_digits_eq [OF assms(1,2)])
  finally show ?thesis .
qed

lemma iso_date_eq:
  assumes "y < 10000" "y' < 10000" "m < 100" "m' < 100" "d < 100" "d' < 100"
  shows "(iso_date y m d = iso_date y' m' d') = (y = y' \<and> m = m' \<and> d = d')"
proof -
  have "(iso_date y m d = iso_date y' m' d') =
     (iso_date y m d \<le> iso_date y' m' d' \<and> iso_date y' m' d' \<le> iso_date y m d)"
    by (rule order.eq_iff)
  also have "\<dots> = (y = y' \<and> m = m' \<and> d = d')"
    unfolding iso_date_le [OF assms] iso_date_le [OF assms(2,1,4,3,6,5)] by auto
  finally show ?thesis .
qed

lemma iso_date_less:
  assumes "y < 10000" "y' < 10000" "m < 100" "m' < 100" "d < 100" "d' < 100"
  shows "(iso_date y m d < iso_date y' m' d') =
         (y < y' \<or> y = y' \<and> (m < m' \<or> m = m' \<and> d < d'))"
proof -
  have "(iso_date y m d < iso_date y' m' d') =
     (iso_date y m d \<le> iso_date y' m' d' \<and> \<not> iso_date y' m' d' \<le> iso_date y m d)"
    by (rule less_le_not_le)
  also have "\<dots> = (y < y' \<or> y = y' \<and> (m < m' \<or> m = m' \<and> d < d'))"
    unfolding iso_date_le [OF assms] iso_date_le [OF assms(2,1,4,3,6,5)] by auto
  finally show ?thesis .
qed

lemma length_iso_date: "length (iso_date y m d) = 10"
  by (simp add: iso_date_def length_four_digits length_two_digits)

text \<open>
  Two timestamps that start with an ISO date compare as their dates do, and as the
  rest of the strings when the dates are the same.
\<close>

lemma iso_timestamp_le:
  assumes "y < 10000" "y' < 10000" "m < 100" "m' < 100" "d < 100" "d' < 100"
  shows "(iso_date y m d @ rest \<le> iso_date y' m' d' @ rest') =
         (y < y' \<or> y = y' \<and> (m < m' \<or> m = m' \<and> (d < d' \<or> d = d' \<and> rest \<le> rest')))"
proof -
  have same: "length (iso_date y m d) = length (iso_date y' m' d')"
    by (simp only: length_iso_date)
  show ?thesis
    unfolding append_le_same_length [OF same] iso_date_less [OF assms] iso_date_eq [OF assms]
    by auto
qed

lemma iso_date_example: "iso_date 2024 3 1 = ''2024-03-01''"
  by (simp add: iso_date_def four_digits_def two_digits_def)

section \<open>Normalization in get_lakers_games\<close>

text \<open>
  C6. Normalization depends on the identity of the subject team, not on its place.
  Take a raw record in which team 14 is the home team, with any home score \<open>a\<close> and
  visitor score \<open>b\<close>, against a team with another identifier, and the mirrored record
  in which the same two teams and scores have exchanged places. Both are processed to
  \<open>lakers_score = a\<close>, \<open>opponent_score = b\<close>, \<open>won = (a > b)\<close>,
  \<open>point_diff = a - b\<close> and the same opponent; the location is \<open>Home\<close> for the
  first and \<open>Away\<close> for the second. With \<open>a = 100\<close> and \<open>b = 90\<close>: scores 100 and
  90, \<open>won = True\<close>, \<open>point_diff = 10\<close>.
\<close>

theorem C6_normalization_symmetry:
  assumes subject: "map_of subject ''id'' = Some (PInt 14)"
    and other: "map_of other ''id'' = Some (PInt k)" "k \<noteq> 14"
    and at_home:
      "map_of g ''home_team'' = Some (PDict subject)"
      "map_of g ''visitor_team'' = Some (PDict other)"
      "map_of g ''home_team_score'' = Some (PInt a)"
      "map_of g ''visitor_team_score'' = Some (PInt b)"
    and away:
      "map_of g' ''home_team'' = Some (PDict other)"
      "map_of g' ''visitor_team'' = Some (PDict subject)"
      "map_of g' ''home_team_score'' = Some (PInt b)"
      "map_of g' ''visitor_team_score'' = Some (PInt a)"
  shows "\<exists>r r'. process_game (PDict g) = Inr r \<and> process_game (PDict g') = Inr r'
           \<and> lakers_score r = PInt a \<and> opponent_score r = PInt b
           \<and> location r = ''Home'' \<and> won r = (b < a) \<and> point_diff r = PInt (a - b)
           \<and> lakers_score r' = PInt a \<and> opponent_score r' = PInt b
           \<and> location r' = ''Away'' \<and> won r' = (b < a) \<and> point_diff r' = PInt (a - b)
           \<and> opponent r' = opponent r"
  using assms
  by (simp add: process_game_def LAKERS_TEAM_ID_def py_gt_ints py_sub_ints
      del: py_sub.simps)

theorem C6_normalization_symmetry_witness:
  "map_of lakers_items ''id'' = Some (PInt 14)
   \<and> map_of celtics_items ''id'' = Some (PInt 2) \<and> (2::int) \<noteq> 14
   \<and> map_of home_game_items ''home_team'' = Some (PDict lakers_items)
   \<and> map_of home_game_items ''visitor_team'' = Some (PDict celtics_items)
   \<and> map_of home_game_items ''home_team_score'' = Some (PInt 100)
   \<and> map_of home_game_items ''visitor_team_score'' = Some (PInt 90)
   \<and> map_of away_game_items ''home_team'' = Some (PDict celtics_items)
   \<and> map_of away_game_items ''visitor_team'' = Some (PDict lakers_items)
   \<and> map_of away_game_items ''home_team_score'' = Some (PInt 90)
   \<and> map_of away_game_items ''visitor_team_score'' = Some (PInt 100)
   \<and> process_game (PDict home_game_items)
       = Inr \<lparr>date = PStr ''2024-01-10'', lakers_score = PInt 100, opponent_score = PInt 90,
              opponent = PStr ''Celtics'', location = ''Home'', won = True,
              point_diff = PInt 10, status = PStr ''Final''\<rparr>
   \<and> process_game (PDict away_game_items)
       = Inr \<lparr>date = PStr ''2024-01-10'', lakers_score = PInt 100, opponent_score = PInt 90,
              opponent = PStr ''Celtics'', location = ''Away'', won = True,
              point_diff = PInt 10, status = PStr ''Final''\<rparr>"
proof -
  have lookups:
    "map_of lakers_items ''id'' = Some (PInt 14)"
    "map_of celtics_items ''id'' = Some (PInt 2)"
    "map_of home_game_items ''home_team'' = Some (PDict lakers_items)"
    "map_of home_game_items ''visitor_team'' = Some (PDict celtics_items)"
    "map_of home_game_items ''home_team_score'' = Some (PInt 100)"
    "map_of home_game_items ''visitor_team_score'' = Some (PInt 90)"
    "map_of away_game_items ''home_team'' = Some (PDict celtics_items)"
    "map_of away_game_items ''visitor_team'' = Some (PDict lakers_items)"
    "map_of away_game_items ''home_team_score'' = Some (PInt 90)"
    "map_of away_game_items ''visitor_team_score'' = Some (PInt 100)"
    by (simp_all add: lakers_items_def celtics_items_def home_game_items_def
        away_game_items_def)
  have other_id: "(2::int) \<noteq> 14" by simp
  note symmetry = C6_normalization_symmetry
    [OF lookups(1) lookups(2) other_id lookups(3,4,5,6) lookups(7,8,9,10)]
  have rest:
    "map_of home_game_items ''date'' = Some (PStr ''2024-01-10'')"
    "map_of home_game_items ''status'' = Some (PStr ''Final'')"
    "map_of away_game_items ''date'' = Some (PStr ''2024-01-10'')"
    "map_of away_game_items ''status'' = Some (PStr ''Final'')"
    "map_of celtics_items ''full_name'' = Some (PStr ''Celtics'')"
    by (simp_all add: celtics_items_def home_game_items_def away_game_items_def)
  have records:
    "process_game (PDict home_game_items)
       = Inr \<lparr>date = PStr ''2024-01-10'', lakers_score = PInt 100, opponent_score = PInt 90,
              opponent = PStr ''Celtics'', location = ''Home'', won = True,
              point_diff = PInt 10, status = PStr ''Final''\<rparr>"
    "process_game (PDict away_game_items)
       = Inr \<lparr>date = PStr ''2024-01-10'', lakers_score = PInt 100, opponent_score = PInt 90,
              opponent = PStr ''Celtics'', location = ''Away'', won = True,
              point_diff = PInt 10, status = PStr ''Final''\<rparr>"
    using symmetry
    by (simp_all add: process_game_def LAKERS_TEAM_ID_def py_gt_ints py_sub_ints lookups rest
        del: py_sub.simps)
  show ?thesis
    using lookups records by simp
qed

text \<open>
  C7, as the code has it. Every record of a list that \<^verbatim>\<open>get_lakers_games\<close> returns
  whose two scores are integers satisfies the invariant
  \<^verbatim>\<open>won == (point_diff > 0)\<close> and
  \<^verbatim>\<open>point_diff == lakers_score - opponent_score\<close>, whatever the upstream answered.
\<close>

theorem C7_game_record_invariant:
  assumes "fst (get_lakers_games w season per_page upstream) = Inr ps"
  shows "\<forall>r \<in> set ps. whole (lakers_score r) \<and> whole (opponent_score r)
                        \<longrightarrow> game_record_invariant r"
proof
  fix r
  assume "r \<in> set ps"
  with get_lakers_games_records [OF assms] obtain item where "process_game item = Inr r"
    by blast
  from process_game_scores [OF this]
  have scores: "py_gt (lakers_score r) (opponent_score r) = Inr (won r)"
    "py_sub (lakers_score r) (opponent_score r) = Inr (point_diff r)"
    by simp_all
  show "whole (lakers_score r) \<and> whole (opponent_score r) \<longrightarrow> game_record_invariant r"
  proof
    assume "whole (lakers_score r) \<and> whole (opponent_score r)"
    with whole_scores_invariant [OF scores]
    show "game_record_invariant r"
      by (simp add: game_record_invariant_def scores(2) del: py_sub.simps py_eq.simps)
  qed
qed

theorem C7_game_record_invariant_witness:
  "fst (get_lakers_games empty_world 2023 25
         (Returned (Response 200 (Some (games_body
            [played 14 ''Lakers'' 100 2 ''Celtics'' 90 ''2024-01-10'',
             played 5 ''Bulls'' 120 14 ''Lakers'' 115 ''2024-01-12''])))))
     = Inr [\<lparr>date = PStr ''2024-01-10'', lakers_score = PInt 100, opponent_score = PInt 90,
              opponent = PStr ''Celtics'', location = ''Home'', won = True,
              point_diff = PInt 10, status = PStr ''Final''\<rparr>,
            \<lparr>date = PStr ''2024-01-12'', lakers_score = PInt 115, opponent_score = PInt 120,
              opponent = PStr ''Bulls'', location = ''Away'', won = False,
              point_diff = PInt (- 5), status = PStr ''Final''\<rparr>]
   \<and> whole (PInt 115) \<and> whole (PInt 120)
   \<and> game_record_invariant
        \<lparr>date = PStr ''2024-01-12'', lakers_score = PInt 115, opponent_score = PInt 120,
         opponent = PStr ''Bulls'', location = ''Away'', won = False,
         point_diff = PInt (- 5), status = PStr ''Final''\<rparr>
   \<and> py_gt (PInt (- 5)) (PInt 0) = Inr False
   \<and> py_sub (PInt 115) (PInt 120) = Inr (PInt (- 5))"
proof -
  note returned = get_lakers_games_two
  note invariant = C7_game_record_invariant [OF returned]
  have "game_record_invariant
        \<lparr>date = PStr ''2024-01-12'', lakers_score = PInt 115, opponent_score = PInt 120,
         opponent = PStr ''Bulls'', location = ''Away'', won = False,
         point_diff = PInt (- 5), status = PStr ''Final''\<rparr>"
    using invariant by simp
  with returned show ?thesis
    by (simp add: py_gt_ints py_sub_ints del: py_sub.simps)
qed

text \<open>
  C7 as the specification states it, for any raw input, does not hold: with the
  integer score \<open>2 ^ 53 + 1\<close> against the float score \<open>2 ^ 53\<close> the comparison is exact
  and \<open>won\<close> is \<^verbatim>\<open>True\<close>, while the subtraction first rounds the integer to the
  nearest double and \<open>point_diff\<close> is \<^verbatim>\<open>0.0\<close>. No exception is raised and the record
  is returned.
\<close>

theorem C7_float_score_counterexample:
  "fst (get_lakers_games empty_world 2023 25
         (Returned (Response 200 (Some (PDict [(''data'', PList [float_score_game])])))))
     = Inr [\<lparr>date = PStr ''2024-01-10'', lakers_score = PInt 9007199254740993,
              opponent_score = PFloat (Finite 9007199254740992 0), opponent = PStr ''Celtics'',
              location = ''Home'', won = True, point_diff = PFloat (Finite 0 0),
              status = PStr ''Final''\<rparr>]
   \<and> py_gt (PFloat (Finite 0 0)) (PInt 0) = Inr False
   \<and> \<not> game_record_invariant
        \<lparr>date = PStr ''2024-01-10'', lakers_score = PInt 9007199254740993,
         opponent_score = PFloat (Finite 9007199254740992 0), opponent = PStr ''Celtics'',
         location = ''Home'', won = True, point_diff = PFloat (Finite 0 0),
         status = PStr ''Final''\<rparr>"
  by (simp add: get_lakers_games_def process_float_score_game game_record_invariant_def
      py_gt_def del: py_sub.simps)

text \<open>
  C8, as the code has it. A list that \<^verbatim>\<open>get_lakers_games\<close> returns is in the
  ascending order of its date strings, whatever the order of the raw records. When
  the dates are ISO dates (four digits of year, two of month, two of day, then any
  time of day), this is the order of the calendar, oldest first. Raw records dated
  \<^verbatim>\<open>2024-03-01\<close>, \<^verbatim>\<open>2024-01-10\<close>, \<^verbatim>\<open>2024-02-15\<close> come out dated
  \<^verbatim>\<open>2024-01-10\<close>, \<^verbatim>\<open>2024-02-15\<close>, \<^verbatim>\<open>2024-03-01\<close>.
\<close>

theorem C8_sorted_by_date:
  assumes "fst (get_lakers_games w season per_page upstream) = Inr ps"
  shows "((\<forall>r \<in> set ps. date r = PStr (text r)) \<longrightarrow> sorted (map text ps))
     \<and> ((\<forall>r \<in> set ps. date r = PStr (iso_date (year r) (month r) (day r) @ time r)
                        \<and> year r < 10000 \<and> month r < 100 \<and> day r < 100)
        \<longrightarrow> sorted_wrt (\<lambda>r r'. year r < year r'
                         \<or> year r = year r'
                           \<and> (month r < month r' \<or> month r = month r' \<and> day r \<le> day r')) ps)"
proof (intro conjI impI)
  assume "\<forall>r \<in> set ps. date r = PStr (text r)"
  with assms show "sorted (map text ps)"
    by (rule returned_sorted_texts)
next
  assume iso: "\<forall>r \<in> set ps. date r = PStr (iso_date (year r) (month r) (day r) @ time r)
                        \<and> year r < 10000 \<and> month r < 100 \<and> day r < 100"
  then have "\<forall>r \<in> set ps. date r = PStr (iso_date (year r) (month r) (day r) @ time r)"
    by simp
  with assms have "sorted (map (\<lambda>r. iso_date (year r) (month r) (day r) @ time r) ps)"
    by (rule returned_sorted_texts)
  then have "sorted_wrt (\<lambda>r r'. iso_date (year r) (month r) (day r) @ time r
                   \<le> iso_date (year r') (month r') (day r') @ time r') ps"
    by (simp add: sorted_map)
  then show "sorted_wrt (\<lambda>r r'. year r < year r'
                         \<or> year r = year r'
                           \<and> (month r < month r' \<or> month r = month r' \<and> day r \<le> day r')) ps"
  proof (rule sorted_wrt_mono_rel [rotated])
    fix r r'
    assume "r \<in> set ps" "r' \<in> set ps"
      and le: "iso_date (year r) (month r) (day r) @ time r
                   \<le> iso_date (year r') (month r') (day r') @ time r'"
    with iso have bounds: "year r < 10000" "year r' < 10000" "month r < 100" "month r' < 100"
      "day r < 100" "day r' < 100" by auto
    from le show "year r < year r'
                         \<or> year r = year r'
                           \<and> (month r < month r' \<or> month r = month r' \<and> day r \<le> day r')"
      unfolding iso_timestamp_le [OF bounds] by auto
  qed
qed

theorem C8_sorted_by_date_witness:
  "fst (get_lakers_games empty_world 2023 25
         (Returned (Response 200 (Some (games_body
            [played 14 ''Lakers'' 100 2 ''Celtics'' 90 ''2024-03-01'',
             played 5 ''Bulls'' 120 14 ''Lakers'' 115 ''2024-01-10'',
             played 14 ''Lakers'' 101 7 ''Suns'' 99 ''2024-02-15''])))))
     = Inr [\<lparr>date = PStr ''2024-01-10'', lakers_score = PInt 115, opponent_score = PInt 120,
              opponent = PStr ''Bulls'', location = ''Away'', won = False,
              point_diff = PInt (- 5), status = PStr ''Final''\<rparr>,
            \<lparr>date = PStr ''2024-02-15'', lakers_score = PInt 101, opponent_score = PInt 99,
              opponent = PStr ''Suns'', location = ''Home'', won = True,
              point_diff = PInt 2, status = PStr ''Final''\<rparr>,
            \<lparr>date = PStr ''2024-03-01'', lakers_score = PInt 100, opponent_score = PInt 90,
              opponent = PStr ''Celtics'', location = ''Home'', won = True,
              point_diff = PInt 10, status = PStr ''Final''\<rparr>]
   \<and> iso_date 2024 1 10 = ''2024-01-10'' \<and> iso_date 2024 2 15 = ''2024-02-15''
   \<and> iso_date 2024 3 1 = ''2024-03-01''
   \<and> sorted [''2024-01-10'', ''2024-02-15'', ''2024-03-01'']"
proof -
  let ?jan = "\<lparr>date = PStr ''2024-01-10'', lakers_score = PInt 115, opponent_score = PInt 120,
              opponent = PStr ''Bulls'', location = ''Away'', won = False,
              point_diff = PInt (- 5), status = PStr ''Final''\<rparr>"
  let ?feb = "\<lparr>date = PStr ''2024-02-15'', lakers_score = PInt 101, opponent_score = PInt 99,
              opponent = PStr ''Suns'', location = ''Home'', won = True,
              point_diff = PInt 2, status = PStr ''Final''\<rparr>"
  let ?mar = "\<lparr>date = PStr ''2024-03-01'', lakers_score = PInt 100, opponent_score = PInt 90,
              opponent = PStr ''Celtics'', location = ''Home'', won = True,
              point_diff = PInt 10, status = PStr ''Final''\<rparr>"
  have returned:
    "fst (get_lakers_games empty_world 2023 25
         (Returned (Response 200 (Some (games_body
            [played 14 ''Lakers'' 100 2 ''Celtics'' 90 ''2024-03-01'',
             played 5 ''Bulls'' 120 14 ''Lakers'' 115 ''2024-01-10'',
             played 14 ''Lakers'' 101 7 ''Suns'' 99 ''2024-02-15''])))))
     = Inr [?jan, ?feb, ?mar]"
    by (simp add: get_lakers_games_game_dicts sort_by_date_normalized raw_dates
        normalize_played)
  have iso: "iso_date 2024 1 10 = ''2024-01-10''" "iso_date 2024 2 15 = ''2024-02-15''"
    "iso_date 2024 3 1 = ''2024-03-01''"
    by (simp_all add: iso_date_def four_digits_def two_digits_def)
  note in_order = C8_sorted_by_date [OF returned, of date_text "\<lambda>r. 2024"
      "\<lambda>r. if r = ?jan then 1 else if r = ?feb then 2 else 3"
      "\<lambda>r. if r = ?jan then 10 else if r = ?feb then 15 else 1" "\<lambda>r. []"]
  have texts: "\<forall>r \<in> set [?jan, ?feb, ?mar]. date r = PStr (date_text r)"
    by (simp add: date_text_def)
  with in_order have "sorted (map date_text [?jan, ?feb, ?mar])"
    by blast
  then have "sorted [''2024-01-10'', ''2024-02-15'', ''2024-03-01'']"
    by (simp add: date_text_def)
  with returned iso show ?thesis
    by simp
qed

text \<open>
  C8 as the specification states it, date order for any input, does not hold: the
  order is that of the strings. A game dated \<^verbatim>\<open>2024-9-30\<close>, with the month not
  padded, comes out after the game of \<^verbatim>\<open>2024-10-01\<close>, the day after.
\<close>

theorem C8_unpadded_date_counterexample:
  "fst (get_lakers_games empty_world 2023 25
         (Returned (Response 200 (Some (games_body
            [played 14 ''Lakers'' 100 2 ''Celtics'' 90 ''2024-9-30'',
             played 14 ''Lakers'' 101 7 ''Suns'' 99 ''2024-10-01''])))))
     = Inr [\<lparr>date = PStr ''2024-10-01'', lakers_score = PInt 101, opponent_score = PInt 99,
              opponent = PStr ''Suns'', location = ''Home'', won = True,
              point_diff = PInt 2, status = PStr ''Final''\<rparr>,
            \<lparr>date = PStr ''2024-9-30'', lakers_score = PInt 100, opponent_score = PInt 90,
              opponent = PStr ''Celtics'', location = ''Home'', won = True,
              point_diff = PInt 10, status = PStr ''Final''\<rparr>]"
  by (simp add: get_lakers_games_game_dicts sort_by_date_normalized raw_dates
      normalize_played)




section \<open>Failure leaves the cache alone\<close>

text \<open>
  C10. When the upstream call fails, the cache after \<^verbatim>\<open>get_team_games\<close> and after
  \<^verbatim>\<open>get_fixed_team\<close> is the cache before the call: under every key the same value
  with the same timestamp, also when a stale entry was served.
\<close>

theorem C10_failure_keeps_cache:
  "(upstream_fails upstream
      \<longrightarrow> cache (snd (get_team_games w tid season per_page t1 upstream t2)) = cache w)
   \<and> (upstream_fails upstream'
      \<longrightarrow> cache (snd (get_fixed_team w t1 upstream' t2)) = cache w)"
  by (simp add: get_team_games_fails get_fixed_team_fails)

theorem C10_failure_keeps_cache_witness:
  "(upstream_fails (Returned (Response 429 None) :: pyval outcome)
      \<and> cache (snd (get_team_games cached_world 14 2024 25 900000000
                      (Returned (Response 429 None)) 900000001)) = cache cached_world
      \<and> fst (get_team_games cached_world 14 2024 25 900000000
                (Returned (Response 429 None)) 900000001) = games_value
      \<and> cache cached_world (games_key 14 2024 25) = Some (games_value, 0))
   \<and> (upstream_fails (Raised :: pyval outcome)
      \<and> cache (snd (get_fixed_team cached_world 900000000 Raised 900000001))
          = cache cached_world)"
proof -
  note kept = C10_failure_keeps_cache
    [of "Returned (Response 429 None)" cached_world 14 2024 25 900000000 900000001 Raised]
  have served:
    "fst (get_team_games cached_world 14 2024 25 900000000
            (Returned (Response 429 None)) 900000001) = games_value"
    by (simp add: get_team_games_fails get_cached_entry stale_fallback_entry
        cached_world_games truthy_examples)
  show ?thesis
    using kept served by (simp add: cached_world_games)
qed

end
